theory Spec2Isabelle
  imports Main
begin

section \<open>Python values\<close>

text \<open>
  A Python \<open>str\<close> is modelled as a \<open>string\<close>; a character stands for the code point of
  the same number, so the model covers the strings whose code points are below 256.
  Log output is not modelled.
\<close>

text \<open>\<open>str.isspace\<close> on one character: the code points below 256 that Python counts as
  white space (TAB, LF, VT, FF, CR, FS, GS, RS, US, SPACE, NEL, NBSP).\<close>

definition isspace :: "char \<Rightarrow> bool" where
  "isspace c = (List.member [9, 10, 11, 12, 13, 28, 29, 30, 31, 32, 133, 160] (of_char c :: nat))"

text \<open>\<open>s.strip()\<close>: white space removed from both ends.\<close>

definition strip :: "string \<Rightarrow> string" where
  "strip s = rev (dropWhile isspace (rev (dropWhile isspace s)))"

text \<open>\<open>s.split('_')[0]\<close>: the part of \<open>s\<close> before its first underscore, all of \<open>s\<close> when it
  has none.\<close>

definition split_0 :: "string \<Rightarrow> string" where
  "split_0 s = takeWhile (\<lambda>c. c \<noteq> CHR ''_'') s"

text \<open>\<open>x or d\<close> for \<open>x\<close> that is \<open>None\<close> or a \<open>str\<close>: \<open>None\<close> and the empty string are falsy.\<close>

definition or_else :: "string option \<Rightarrow> string \<Rightarrow> string" where
  "or_else x d = (case x of None \<Rightarrow> d | Some s \<Rightarrow> if s = [] then d else s)"

text \<open>The exceptions of \<open>utils/exceptions.py\<close>, \<open>KeyError\<close>, and any other exception, which
  carries its message.\<close>

datatype exn =
    KeyError string
  | UnsupportedLanguageError string
  | TranslationError string
  | OtherException string

text \<open>\<open>str(e)\<close>. A \<open>KeyError\<close> prints the \<open>repr\<close> of its key.\<close>

fun str_exn :: "exn \<Rightarrow> string" where
  "str_exn (KeyError k) = [CHR 0x27] @ k @ [CHR 0x27]"
| "str_exn (UnsupportedLanguageError language_code) =
     ''Language '' @ [CHR 0x27] @ language_code @ [CHR 0x27] @ '' is not supported''"
| "str_exn (TranslationError message) = message"
| "str_exn (OtherException message) = message"

text \<open>A dict literal with string keys and values, in source order; a later entry for a
  key overrides an earlier one. \<open>dict_get\<close> is \<open>d.get(k)\<close>, \<open>dict_item\<close> is \<open>d[k]\<close>.\<close>

type_synonym dict = "(string \<times> string) list"

definition dict_get :: "dict \<Rightarrow> string \<Rightarrow> string option" where
  "dict_get d k = map_of (rev d) k"

definition dict_item :: "dict \<Rightarrow> string \<Rightarrow> exn + string" where
  "dict_item d k = (case dict_get d k of None \<Rightarrow> Inl (KeyError k) | Some v \<Rightarrow> Inr v)"

section \<open>The language code tables\<close>

text \<open>\<open>LANGUAGE_CODE_MAP\<close> of \<open>handler.py\<close> (lines 15-56).\<close>

definition handler_LANGUAGE_CODE_MAP :: dict where
  "handler_LANGUAGE_CODE_MAP =
    [(''en'', ''eng_Latn''), (''ar'', ''arb_Arab''), (''fr'', ''fra_Latn''), (''es'', ''spa_Latn''),
     (''de'', ''deu_Latn''), (''ru'', ''rus_Cyrl''), (''zh'', ''zho_Hans''), (''ja'', ''jpn_Jpan''),
     (''pt'', ''por_Latn''), (''it'', ''ita_Latn''), (''nl'', ''nld_Latn''), (''cs'', ''ces_Latn''),
     (''pl'', ''pol_Latn''), (''tr'', ''tur_Latn''), (''ko'', ''kor_Hang''), (''uk'', ''ukr_Cyrl''),
     (''vi'', ''vie_Latn''), (''id'', ''ind_Latn''), (''fa'', ''fas_Arab''), (''sv'', ''swe_Latn''),
     (''hu'', ''hun_Latn''), (''fi'', ''fin_Latn''), (''da'', ''dan_Latn''), (''no'', ''nob_Latn''),
     (''he'', ''heb_Hebr''), (''th'', ''tha_Thai''), (''hi'', ''hin_Deva''), (''bg'', ''bul_Cyrl''),
     (''el'', ''ell_Grek''), (''ro'', ''ron_Latn''), (''sk'', ''slk_Latn''), (''lt'', ''lit_Latn''),
     (''lv'', ''lvs_Latn''), (''et'', ''est_Latn''), (''sr'', ''srp_Cyrl''), (''hr'', ''hrv_Latn''),
     (''sl'', ''slv_Latn''), (''ca'', ''cat_Latn''), (''ms'', ''zsm_Latn''), (''ur'', ''urd_Arab'')]"

text \<open>\<open>NLLBTranslator.LANGUAGE_CODE_MAP\<close> of \<open>models/nllb_model.py\<close> (lines 21-62).\<close>

definition NLLBTranslator_LANGUAGE_CODE_MAP :: dict where
  "NLLBTranslator_LANGUAGE_CODE_MAP =
    [(''en'', ''eng_Latn''), (''ar'', ''arb_Arab''), (''fr'', ''fra_Latn''), (''es'', ''spa_Latn''),
     (''de'', ''deu_Latn''), (''ru'', ''rus_Cyrl''), (''zh'', ''zho_Hans''), (''ja'', ''jpn_Jpan''),
     (''pt'', ''por_Latn''), (''it'', ''ita_Latn''), (''nl'', ''nld_Latn''), (''cs'', ''ces_Latn''),
     (''pl'', ''pol_Latn''), (''tr'', ''tur_Latn''), (''ko'', ''kor_Hang''), (''uk'', ''ukr_Cyrl''),
     (''vi'', ''vie_Latn''), (''id'', ''ind_Latn''), (''fa'', ''fas_Arab''), (''sv'', ''swe_Latn''),
     (''hu'', ''hun_Latn''), (''fi'', ''fin_Latn''), (''da'', ''dan_Latn''), (''no'', ''nob_Latn''),
     (''he'', ''heb_Hebr''), (''th'', ''tha_Thai''), (''hi'', ''hin_Deva''), (''bg'', ''bul_Cyrl''),
     (''el'', ''ell_Grek''), (''ro'', ''ron_Latn''), (''sk'', ''slk_Latn''), (''lt'', ''lit_Latn''),
     (''lv'', ''lvs_Latn''), (''et'', ''est_Latn''), (''sr'', ''srp_Cyrl''), (''hr'', ''hrv_Latn''),
     (''sl'', ''slv_Latn''), (''ca'', ''cat_Latn''), (''ms'', ''zsm_Latn''), (''ur'', ''urd_Arab'')]"

section \<open>The external capabilities and the state of the process\<close>

text \<open>
  The three collaborators the code calls are parameters of the model. Each returns
  \<open>Inr\<close> its result or \<open>Inl\<close> the message of the exception it raises:
  \<^item> \<open>from_pretrained\<close>: loading the tokenizer and the model (\<open>None\<close>: both load);
  \<^item> \<open>detect\<close>: \<open>langdetect.detect(text)\<close>;
  \<^item> \<open>generate\<close>: tokenising the text under the tokenizer's source language, looking up
    the forced first token of the target locale tag, \<open>model.generate\<close> with the fixed
    decoding parameters, and decoding the first output. Its arguments are the source
    locale tag, the target locale tag and the text.
\<close>

record capabilities =
  from_pretrained :: "string option"
  detect :: "string \<Rightarrow> string + string"
  generate :: "string \<Rightarrow> string \<Rightarrow> string \<Rightarrow> string + string"

text \<open>Every call of a capability is recorded, in order.\<close>

datatype event =
    LoadModel
  | Detect string
  | Generate string string string

text \<open>
  The mutable state: whether the model and tokenizer globals (\<open>handler.py\<close>), or the
  singleton \<open>translator\<close> (\<open>models/nllb_model.py\<close>), are set; the tokenizer's \<open>src_lang\<close>;
  and the calls made so far.
\<close>

record world =
  loaded :: bool
  src_lang :: "string option"
  trace :: "event list"

text \<open>Lines 151-168 of \<open>handler.py\<close> and 139-155 of \<open>models/nllb_model.py\<close>: set the
  tokenizer's source language, then tokenise, generate and decode.\<close>

definition tokenize_generate_decode ::
  "capabilities \<Rightarrow> world \<Rightarrow> string \<Rightarrow> string \<Rightarrow> string \<Rightarrow> (exn + string) \<times> world" where
  "tokenize_generate_decode caps w source_language_code target_language_code text =
    (let w1 = w\<lparr>src_lang := Some source_language_code\<rparr>;
         w2 = w1\<lparr>trace := trace w1 @ [Generate source_language_code target_language_code text]\<rparr>
     in case generate caps source_language_code target_language_code text of
          Inl message \<Rightarrow> (Inl (OtherException message), w2)
        | Inr translation \<Rightarrow> (Inr translation, w2))"

section \<open>The batch surface: \<open>handler.py\<close>\<close>

text \<open>\<open>load_model\<close>: the globals are set only when both loads succeed.\<close>

definition load_model :: "capabilities \<Rightarrow> world \<Rightarrow> (exn + unit) \<times> world" where
  "load_model caps w =
    (let w1 = w\<lparr>trace := trace w @ [LoadModel]\<rparr>
     in case from_pretrained caps of
          Some message \<Rightarrow> (Inl (OtherException message), w1)
        | None \<Rightarrow> (Inr (), w1\<lparr>loaded := True\<rparr>))"

text \<open>\<open>detect_language\<close> of \<open>handler.py\<close>: the locale tag and the short code. A failing
  \<open>LANGUAGE_CODE_MAP['en']\<close> in the \<open>try\<close> block fails again in the handler and
  propagates.\<close>

definition handler_detect_language ::
  "capabilities \<Rightarrow> world \<Rightarrow> string \<Rightarrow> (exn + string \<times> string) \<times> world" where
  "handler_detect_language caps w text =
    (let w1 = w\<lparr>trace := trace w @ [Detect text]\<rparr>;
         fallback = (case dict_item handler_LANGUAGE_CODE_MAP ''en'' of
                       Inl e \<Rightarrow> Inl e
                     | Inr en \<Rightarrow> Inr (en, ''en''))
     in case detect caps text of
          Inl message \<Rightarrow> (fallback, w1)
        | Inr lang_code \<Rightarrow>
            (case dict_get handler_LANGUAGE_CODE_MAP lang_code of
               None \<Rightarrow> (fallback, w1)
             | Some nllb_code \<Rightarrow>
                 if nllb_code = [] then (fallback, w1)
                 else (Inr (nllb_code, lang_code), w1)))"

text \<open>Lines 130-134 of \<open>translate\<close>: the target locale tag.\<close>

definition handler_target_language_code :: "string \<Rightarrow> exn + string" where
  "handler_target_language_code target_language =
    (if dict_get handler_LANGUAGE_CODE_MAP target_language = None
     then dict_item handler_LANGUAGE_CODE_MAP ''en''
     else dict_item handler_LANGUAGE_CODE_MAP target_language)"

text \<open>Lines 137-146 of \<open>translate\<close>: the source locale tag and the new value of the
  variable \<open>source_language\<close>.\<close>

definition handler_source_language_code ::
  "capabilities \<Rightarrow> world \<Rightarrow> string \<Rightarrow> string option \<Rightarrow> (exn + string \<times> string) \<times> world" where
  "handler_source_language_code caps w text source_language =
    (case source_language of
       None \<Rightarrow> handler_detect_language caps w text
     | Some s \<Rightarrow>
         (case dict_get handler_LANGUAGE_CODE_MAP s of
            None \<Rightarrow> handler_detect_language caps w text
          | Some source_language_code \<Rightarrow> (Inr (source_language_code, s), w)))"

text \<open>The dict returned by the \<open>except\<close> branch of \<open>translate\<close> (lines 177-183).\<close>

definition translation_error :: "exn \<Rightarrow> string option \<Rightarrow> string \<Rightarrow> dict" where
  "translation_error e source_language target_language =
    [(''error'', ''Translation error: '' @ str_exn e),
     (''source_language'', or_else source_language ''unknown''),
     (''target_language'', target_language)]"

text \<open>\<open>translate\<close> of \<open>handler.py\<close>. Loading the model (lines 119-120) is outside the
  \<open>try\<close> block, so its exception leaves the function.\<close>

definition handler_translate ::
  "capabilities \<Rightarrow> world \<Rightarrow> string \<Rightarrow> string \<Rightarrow> string option \<Rightarrow> (exn + dict) \<times> world" where
  "handler_translate caps w text target_language source_language =
    (case (if loaded w then (Inr (), w) else load_model caps w) of
       (Inl e, w0) \<Rightarrow> (Inl e, w0)
     | (Inr u, w0) \<Rightarrow>
         if strip text = [] then
           (Inr [(''translated_text'', ''''),
                 (''source_language'', or_else source_language ''en'')], w0)
         else
           (case handler_target_language_code target_language of
              Inl e \<Rightarrow> (Inr (translation_error e source_language target_language), w0)
            | Inr target_language_code \<Rightarrow>
                (case handler_source_language_code caps w0 text source_language of
                   (Inl e, w1) \<Rightarrow>
                     (Inr (translation_error e source_language target_language), w1)
                 | (Inr (source_language_code, detected_lang), w1) \<Rightarrow>
                     (case tokenize_generate_decode caps w1 source_language_code
                             target_language_code text of
                        (Inl e, w2) \<Rightarrow>
                          (Inr (translation_error e (Some detected_lang) target_language), w2)
                      | (Inr translation, w2) \<Rightarrow>
                          (Inr [(''translated_text'', translation),
                                (''source_language'', detected_lang),
                                (''target_language'', target_language)], w2)))))"

text \<open>
  \<open>handler\<close>: the event is a dict whose \<open>input\<close> entry is a dict from field names to
  strings; an absent key (or a JSON null) is \<open>None\<close>. \<open>not text\<close> holds for an absent and
  for an empty text.
\<close>

type_synonym payload = "string \<rightharpoonup> string"

definition handler :: "capabilities \<Rightarrow> world \<Rightarrow> (string \<rightharpoonup> payload) \<Rightarrow> dict \<times> world" where
  "handler caps w event =
    (let input_data = (case event ''input'' of None \<Rightarrow> Map.empty | Some d \<Rightarrow> d);
         text = input_data ''text'';
         target_language = input_data ''target_language'';
         source_language = input_data ''source_language''
     in case text of
          None \<Rightarrow> ([(''error'', ''Missing required field: text'')], w)
        | Some t \<Rightarrow>
            if t = [] then ([(''error'', ''Missing required field: text'')], w)
            else
              (case target_language of
                 None \<Rightarrow> ([(''error'', ''Missing required field: target_language'')], w)
               | Some tgt \<Rightarrow>
                   if tgt = [] then
                     ([(''error'', ''Missing required field: target_language'')], w)
                   else
                     (case handler_translate caps w t tgt source_language of
                        (Inl e, w1) \<Rightarrow>
                          ([(''error'', ''Error processing request: '' @ str_exn e)], w1)
                      | (Inr result, w1) \<Rightarrow> (result, w1))))"

section \<open>The REST surface: \<open>models/nllb_model.py\<close> and \<open>api/endpoints.py\<close>\<close>

text \<open>\<open>get_translator\<close>: the singleton is created on first use; \<open>NLLBTranslator()\<close> loads
  the tokenizer and the model.\<close>

definition get_translator :: "capabilities \<Rightarrow> world \<Rightarrow> (exn + unit) \<times> world" where
  "get_translator caps w =
    (if loaded w then (Inr (), w)
     else
       (let w1 = w\<lparr>trace := trace w @ [LoadModel]\<rparr>
        in case from_pretrained caps of
             Some message \<Rightarrow> (Inl (OtherException message), w1)
           | None \<Rightarrow> (Inr (), w1\<lparr>loaded := True\<rparr>)))"

text \<open>\<open>NLLBTranslator.detect_language\<close>: the locale tag only.\<close>

definition NLLBTranslator_detect_language ::
  "capabilities \<Rightarrow> world \<Rightarrow> string \<Rightarrow> (exn + string) \<times> world" where
  "NLLBTranslator_detect_language caps w text =
    (let w1 = w\<lparr>trace := trace w @ [Detect text]\<rparr>;
         fallback = dict_item NLLBTranslator_LANGUAGE_CODE_MAP ''en''
     in case detect caps text of
          Inl message \<Rightarrow> (fallback, w1)
        | Inr lang_code \<Rightarrow>
            (case dict_get NLLBTranslator_LANGUAGE_CODE_MAP lang_code of
               None \<Rightarrow> (fallback, w1)
             | Some nllb_code \<Rightarrow>
                 if nllb_code = [] then (fallback, w1) else (Inr nllb_code, w1)))"

text \<open>Lines 122-126 of \<open>NLLBTranslator.translate\<close>: the target locale tag.\<close>

definition NLLBTranslator_target_language_code :: "string \<Rightarrow> exn + string" where
  "NLLBTranslator_target_language_code target_language =
    (if dict_get NLLBTranslator_LANGUAGE_CODE_MAP target_language = None
     then dict_item NLLBTranslator_LANGUAGE_CODE_MAP ''en''
     else dict_item NLLBTranslator_LANGUAGE_CODE_MAP target_language)"

text \<open>Lines 129-134 of \<open>NLLBTranslator.translate\<close>: the source locale tag. Python
  evaluates the arguments of \<open>dict.get\<close> before the call, so
  \<open>self.detect_language(text)\<close>, the default, runs whether or not the key is present.\<close>

definition NLLBTranslator_source_language_code ::
  "capabilities \<Rightarrow> world \<Rightarrow> string \<Rightarrow> string option \<Rightarrow> (exn + string) \<times> world" where
  "NLLBTranslator_source_language_code caps w text source_language =
    (case source_language of
       None \<Rightarrow> NLLBTranslator_detect_language caps w text
     | Some s \<Rightarrow>
         (case NLLBTranslator_detect_language caps w text of
            (Inl e, w1) \<Rightarrow> (Inl e, w1)
          | (Inr detected, w1) \<Rightarrow>
              (case dict_get NLLBTranslator_LANGUAGE_CODE_MAP s of
                 None \<Rightarrow> (Inr detected, w1)
               | Some source_language_code \<Rightarrow> (Inr source_language_code, w1))))"

text \<open>\<open>NLLBTranslator.translate\<close>: every exception is caught and its message returned as
  the translation (lines 160-162).\<close>

definition NLLBTranslator_translate ::
  "capabilities \<Rightarrow> world \<Rightarrow> string \<Rightarrow> string \<Rightarrow> string option \<Rightarrow> string \<times> world" where
  "NLLBTranslator_translate caps w text target_language source_language =
    (if strip text = [] then ('''', w)
     else
       (case NLLBTranslator_target_language_code target_language of
          Inl e \<Rightarrow> (''Translation error: '' @ str_exn e, w)
        | Inr target_language_code \<Rightarrow>
            (case NLLBTranslator_source_language_code caps w text source_language of
               (Inl e, w1) \<Rightarrow> (''Translation error: '' @ str_exn e, w1)
             | (Inr source_language_code, w1) \<Rightarrow>
                 (case tokenize_generate_decode caps w1 source_language_code
                         target_language_code text of
                    (Inl e, w2) \<Rightarrow> (''Translation error: '' @ str_exn e, w2)
                  | (Inr translation, w2) \<Rightarrow> (translation, w2)))))"

text \<open>The request body (\<open>TranslationRequest\<close>) and the two outcomes of the endpoint: the
  response model with status 200, or an \<open>HTTPException\<close> with its status and detail.\<close>

record TranslationRequest =
  req_text :: string
  req_target_language :: string
  req_source_language :: "string option"

datatype http_result =
    Response200 string string string
  | HTTPException nat string

text \<open>The three \<open>except\<close> clauses of the endpoint (lines 48-58).\<close>

fun http_exception :: "exn \<Rightarrow> http_result" where
  "http_exception (UnsupportedLanguageError c) =
     HTTPException 400 (str_exn (UnsupportedLanguageError c))"
| "http_exception (TranslationError m) = HTTPException 500 (str_exn (TranslationError m))"
| "http_exception e = HTTPException 500 (''An unexpected error occurred: '' @ str_exn e)"

text \<open>\<open>translate\<close> of \<open>api/endpoints.py\<close>; \<open>Response200\<close> carries \<open>translated_text\<close>,
  \<open>source_language\<close> and \<open>target_language\<close>.\<close>

definition endpoint_translate ::
  "capabilities \<Rightarrow> world \<Rightarrow> TranslationRequest \<Rightarrow> http_result \<times> world" where
  "endpoint_translate caps w request =
    (case get_translator caps w of
       (Inl e, w1) \<Rightarrow> (http_exception e, w1)
     | (Inr u, w1) \<Rightarrow>
         (case (case req_source_language request of
                  Some s \<Rightarrow> (Inr s, w1)
                | None \<Rightarrow>
                    (case NLLBTranslator_detect_language caps w1 (req_text request) of
                       (Inl e, w2) \<Rightarrow> (Inl e, w2)
                     | (Inr source_language_code, w2) \<Rightarrow>
                         (Inr (split_0 source_language_code), w2))) of
            (Inl e, w2) \<Rightarrow> (http_exception e, w2)
          | (Inr source_language, w2) \<Rightarrow>
              (case NLLBTranslator_translate caps w2 (req_text request)
                      (req_target_language request) (Some source_language) of
                 (translated_text, w3) \<Rightarrow>
                   (Response200 translated_text source_language
                      (req_target_language request), w3))))"

section \<open>Example capabilities and states\<close>

text \<open>The state before anything is loaded, and the state once \<open>load_model()\<close> at the end of
  \<open>handler.py\<close> (or the start-up event of \<open>main.py\<close>) has run with success.\<close>

definition initial_world :: world where
  "initial_world = \<lparr>loaded = False, src_lang = None, trace = []\<rparr>"

definition started_world :: world where
  "started_world = \<lparr>loaded = True, src_lang = None, trace = [LoadModel]\<rparr>"

text \<open>A detector that answers \<open>en\<close> for every text, with a generator that answers the text
  in brackets after the target locale tag, and the same detector with a generator that
  always raises.\<close>

definition working_capabilities :: capabilities where
  "working_capabilities =
    \<lparr>from_pretrained = None,
     detect = (\<lambda>text. Inr ''en''),
     generate = (\<lambda>source_language_code target_language_code text.
                   Inr (target_language_code @ ''['' @ text @ '']''))\<rparr>"

definition failing_capabilities :: capabilities where
  "failing_capabilities =
    \<lparr>from_pretrained = None,
     detect = (\<lambda>text. Inr ''en''),
     generate = (\<lambda>source_language_code target_language_code text.
                   Inl ''CUDA out of memory'')\<rparr>"

section \<open>Facts about the tables and the helpers\<close>

lemma handler_keys_distinct: "distinct (map fst handler_LANGUAGE_CODE_MAP)"
  unfolding handler_LANGUAGE_CODE_MAP_def by simp

lemma handler_values_distinct: "distinct (map snd handler_LANGUAGE_CODE_MAP)"
  unfolding handler_LANGUAGE_CODE_MAP_def by simp

lemma tables_equal: "NLLBTranslator_LANGUAGE_CODE_MAP = handler_LANGUAGE_CODE_MAP"
  unfolding handler_LANGUAGE_CODE_MAP_def NLLBTranslator_LANGUAGE_CODE_MAP_def by (rule refl)

text \<open>With distinct keys the order of the entries does not matter.\<close>

lemma dict_get_distinct:
  assumes "distinct (map fst d)"
  shows "dict_get d k = map_of d k"
proof -
  have "distinct (map fst (rev d))"
    using assms by (simp add: rev_map [symmetric])
  then have "map_of (rev d) = map_of d"
    using assms by (simp add: map_of_inject_set)
  then show ?thesis
    by (simp add: dict_get_def)
qed

lemma handler_dict_get:
  "dict_get handler_LANGUAGE_CODE_MAP k = map_of handler_LANGUAGE_CODE_MAP k"
  by (rule dict_get_distinct [OF handler_keys_distinct])

lemma handler_en: "dict_get handler_LANGUAGE_CODE_MAP ''en'' = Some ''eng_Latn''"
  unfolding handler_dict_get by (simp add: handler_LANGUAGE_CODE_MAP_def)

lemma handler_fr: "dict_get handler_LANGUAGE_CODE_MAP ''fr'' = Some ''fra_Latn''"
  unfolding handler_dict_get by (simp add: handler_LANGUAGE_CODE_MAP_def)

lemma handler_item_en: "dict_item handler_LANGUAGE_CODE_MAP ''en'' = Inr ''eng_Latn''"
  by (simp add: dict_item_def handler_en)

lemma handler_values_nonempty:
  assumes "dict_get handler_LANGUAGE_CODE_MAP k = Some v"
  shows "v \<noteq> []"
proof -
  have "(k, v) \<in> set handler_LANGUAGE_CODE_MAP"
    using assms unfolding handler_dict_get by (rule map_of_SomeD)
  moreover have "list_all (\<lambda>kv. snd kv \<noteq> []) handler_LANGUAGE_CODE_MAP"
    unfolding handler_LANGUAGE_CODE_MAP_def by simp
  ultimately show ?thesis
    by (auto simp: list_all_iff)
qed

text \<open>\<open>not text.strip()\<close> holds exactly for the texts made of white space only.\<close>

lemma dropWhile_all: "(\<forall>x\<in>set (dropWhile P xs). P x) \<longleftrightarrow> (\<forall>x\<in>set xs. P x)"
proof
  assume a: "\<forall>x\<in>set (dropWhile P xs). P x"
  have "dropWhile P xs = []"
  proof (rule ccontr)
    assume ne: "dropWhile P xs \<noteq> []"
    then have "\<not> P (hd (dropWhile P xs))" by (rule hd_dropWhile)
    moreover have "hd (dropWhile P xs) \<in> set (dropWhile P xs)" using ne by simp
    ultimately show False using a by blast
  qed
  then show "\<forall>x\<in>set xs. P x" by (simp add: dropWhile_eq_Nil_conv)
next
  assume "\<forall>x\<in>set xs. P x"
  then show "\<forall>x\<in>set (dropWhile P xs). P x" by (blast dest: set_dropWhileD)
qed

lemma strip_empty_iff: "strip s = [] \<longleftrightarrow> list_all isspace s"
  unfolding strip_def by (simp add: dropWhile_all list_all_iff)

text \<open>With \<open>en\<close> in the table and no empty locale tag, neither \<open>detect_language\<close> nor the
  target lookup can raise.\<close>

lemma handler_detect_language_eq:
  "handler_detect_language caps w text =
     (Inr (case detect caps text of
             Inl message \<Rightarrow> (''eng_Latn'', ''en'')
           | Inr lang_code \<Rightarrow>
               (case dict_get handler_LANGUAGE_CODE_MAP lang_code of
                  None \<Rightarrow> (''eng_Latn'', ''en'')
                | Some nllb_code \<Rightarrow> (nllb_code, lang_code))),
      w\<lparr>trace := trace w @ [Detect text]\<rparr>)"
  unfolding handler_detect_language_def Let_def
  by (auto simp: handler_item_en split: sum.splits option.splits
      dest: handler_values_nonempty)

lemma NLLBTranslator_detect_language_eq:
  "NLLBTranslator_detect_language caps w text =
     (Inr (case detect caps text of
             Inl message \<Rightarrow> ''eng_Latn''
           | Inr lang_code \<Rightarrow>
               (case dict_get handler_LANGUAGE_CODE_MAP lang_code of
                  None \<Rightarrow> ''eng_Latn''
                | Some nllb_code \<Rightarrow> nllb_code)),
      w\<lparr>trace := trace w @ [Detect text]\<rparr>)"
  unfolding NLLBTranslator_detect_language_def Let_def tables_equal
  by (auto simp: handler_item_en split: sum.splits option.splits
      dest: handler_values_nonempty)

lemma handler_target_language_code_eq:
  "handler_target_language_code target_language =
     Inr (case dict_get handler_LANGUAGE_CODE_MAP target_language of
            None \<Rightarrow> ''eng_Latn'' | Some code \<Rightarrow> code)"
  unfolding handler_target_language_code_def
  by (auto simp: handler_en dict_item_def split: option.splits)

lemma NLLBTranslator_target_language_code_eq:
  "NLLBTranslator_target_language_code target_language =
     handler_target_language_code target_language"
  unfolding handler_target_language_code_def NLLBTranslator_target_language_code_def
    tables_equal by (rule refl)

text \<open>Source resolution: a known explicit code is used as it is, and no path raises.\<close>

lemma handler_source_language_code_known:
  assumes "dict_get handler_LANGUAGE_CODE_MAP s = Some code"
  shows "handler_source_language_code caps w text (Some s) = (Inr (code, s), w)"
  using assms by (simp add: handler_source_language_code_def)

lemma handler_source_language_code_returns:
  "\<exists>code lang w1.
     handler_source_language_code caps w text source_language = (Inr (code, lang), w1)"
  unfolding handler_source_language_code_def handler_detect_language_eq
  by (simp split: option.splits)

lemma NLLBTranslator_source_language_code_returns:
  "\<exists>code w1.
     NLLBTranslator_source_language_code caps w text source_language = (Inr code, w1)"
  unfolding NLLBTranslator_source_language_code_def NLLBTranslator_detect_language_eq
  by (simp split: option.splits)

text \<open>Two facts about concrete inputs.\<close>

lemma handler_xx: "dict_get handler_LANGUAGE_CODE_MAP ''xx'' = None"
  unfolding handler_dict_get by (simp add: handler_LANGUAGE_CODE_MAP_def)

lemma Hello_not_blank: "\<not> list_all isspace ''Hello''"
  by (simp add: isspace_def)

text \<open>The model is loaded when the handler starts serving, and stays loaded: \<open>load_model()\<close>
  runs at the end of \<open>handler.py\<close>, before \<open>runpod.serverless.start\<close>.\<close>

lemma load_model_starts:
  "load_model working_capabilities initial_world = (Inr (), started_world)"
  by (simp add: load_model_def working_capabilities_def initial_world_def started_world_def)

lemma handler_translate_keeps_loaded:
  assumes "loaded w"
  shows "loaded (snd (handler_translate caps w text target_language source_language))"
proof -
  obtain r w1 where s: "handler_source_language_code caps w text source_language = (r, w1)"
    by (cases "handler_source_language_code caps w text source_language")
  then have "loaded w1"
    using assms
    by (auto simp: handler_source_language_code_def handler_detect_language_eq
        split: option.splits)
  then show ?thesis
    using assms s
    by (auto simp: handler_translate_def tokenize_generate_decode_def Let_def
        split: sum.splits prod.splits)
qed

lemma handler_keeps_loaded:
  assumes "loaded w"
  shows "loaded (snd (handler caps w event))"
  using assms handler_translate_keeps_loaded [OF assms]
  by (auto simp: handler_def Let_def split: option.splits sum.splits prod.splits)
    (metis snd_conv)+

section \<open>The claims\<close>

text \<open>
  C1. A call of translate with an explicit source short code that is in the table never
  invokes the detection capability. The batch surface keeps this
  (\<open>handler_source_language_code_known\<close>: the state, and with it the trace, is unchanged).
  The translator of the REST surface does not: \<open>detect_language(text)\<close> is the default
  argument of \<open>dict.get\<close> and is evaluated before the lookup. For the text \<open>Hello\<close> with
  target \<open>fr\<close> and source \<open>en\<close>, whatever the capabilities and the state, the detector is
  called once before the generator.
\<close>


theorem NLLBTranslator_translate_known_source_detects:
  "trace (snd (NLLBTranslator_translate caps w ''Hello'' ''fr'' (Some ''en''))) =
     trace w @ [Detect ''Hello'', Generate ''eng_Latn'' ''fra_Latn'' ''Hello'']"
  unfolding NLLBTranslator_translate_def NLLBTranslator_source_language_code_def
    NLLBTranslator_detect_language_eq NLLBTranslator_target_language_code_eq
    handler_target_language_code_eq tokenize_generate_decode_def Let_def tables_equal
  by (simp add: handler_en handler_fr strip_def isspace_def split: sum.splits)

text \<open>
  C2. For every short code of the table, lookup followed by reverse (the prefix of the
  locale tag before the underscore, as the endpoint computes it) gives the short code
  back. On the code it does not: the prefix of a locale tag is the three-letter code, so
  \<open>en\<close> is looked up as \<open>eng_Latn\<close> and comes back as \<open>eng\<close>, no entry of the table
  round-trips, and a request without source language whose text is detected as \<open>en\<close> is
  answered with source language \<open>eng\<close>.
\<close>

theorem lookup_then_prefix_en:
  "map_option split_0 (dict_get NLLBTranslator_LANGUAGE_CODE_MAP ''en'') = Some ''eng''
   \<and> list_all (\<lambda>kv. split_0 (snd kv) \<noteq> fst kv) NLLBTranslator_LANGUAGE_CODE_MAP
   \<and> fst (endpoint_translate working_capabilities started_world
          \<lparr>req_text = ''Hello'', req_target_language = ''fr'',
           req_source_language = None\<rparr>) =
       Response200 ''fra_Latn[Hello]'' ''eng'' ''fr''"
proof -
  have a: "map_option split_0 (dict_get NLLBTranslator_LANGUAGE_CODE_MAP ''en'') = Some ''eng''"
    unfolding tables_equal by (simp add: handler_en split_0_def)
  have b: "list_all (\<lambda>kv. split_0 (snd kv) \<noteq> fst kv) NLLBTranslator_LANGUAGE_CODE_MAP"
    unfolding NLLBTranslator_LANGUAGE_CODE_MAP_def by (simp add: split_0_def)
  have eng: "dict_get handler_LANGUAGE_CODE_MAP ''eng'' = None"
    unfolding handler_dict_get by (simp add: handler_LANGUAGE_CODE_MAP_def)
  have c: "fst (endpoint_translate working_capabilities started_world
          \<lparr>req_text = ''Hello'', req_target_language = ''fr'',
           req_source_language = None\<rparr>) =
       Response200 ''fra_Latn[Hello]'' ''eng'' ''fr''"
    unfolding endpoint_translate_def get_translator_def NLLBTranslator_translate_def
      NLLBTranslator_source_language_code_def
      NLLBTranslator_detect_language_eq NLLBTranslator_target_language_code_eq
      handler_target_language_code_eq tokenize_generate_decode_def Let_def tables_equal
    by (simp add: handler_en handler_fr eng strip_def isspace_def started_world_def
        working_capabilities_def split_0_def)
  show ?thesis
    using a b c by (intro conjI)
qed

text \<open>
  C3. When generation or tokenisation fails inside the translator, the HTTP surface
  answers with status 500 and an error message, never with a 200 that carries the
  failure. On the code the translator catches the exception and returns its message as
  the translation, so the endpoint never sees a \<open>TranslationError\<close>: with a generator
  that raises, the request for \<open>Hello\<close> from \<open>en\<close> to \<open>fr\<close> is answered with status 200
  and the message as \<open>translated_text\<close>.
\<close>

theorem endpoint_generation_failure_is_200:
  "fst (endpoint_translate failing_capabilities started_world
          \<lparr>req_text = ''Hello'', req_target_language = ''fr'',
           req_source_language = Some ''en''\<rparr>) =
     Response200 ''Translation error: CUDA out of memory'' ''en'' ''fr''"
  unfolding endpoint_translate_def get_translator_def NLLBTranslator_translate_def
    NLLBTranslator_source_language_code_def
    NLLBTranslator_detect_language_eq NLLBTranslator_target_language_code_eq
    handler_target_language_code_eq tokenize_generate_decode_def Let_def tables_equal
  by (simp add: handler_en handler_fr strip_def isspace_def started_world_def
      failing_capabilities_def)

text \<open>
  C4. A call of translate whose text is empty or made of white space only succeeds with
  an empty translated text, reports the source code that was given, or \<open>en\<close> when none
  was, and does not invoke the generation capability: the state, and with it the trace of
  calls, is unchanged. \<open>translate\<close> of \<open>handler.py\<close> returns the dict with both fields (an
  empty source code counts as none given, being falsy); \<open>NLLBTranslator.translate\<close>
  returns the empty string, its result having no source code. The model is loaded, as it
  is once the module has been imported.
\<close>

theorem translate_blank_text:
  assumes "list_all isspace text" and "loaded w"
  shows "handler_translate caps w text target_language source_language =
           (Inr [(''translated_text'', ''''),
                 (''source_language'',
                  case source_language of
                    None \<Rightarrow> ''en''
                  | Some s \<Rightarrow> if s = [] then ''en'' else s)], w)
         \<and> NLLBTranslator_translate caps w text target_language source_language = ('''', w)"
  using assms
  by (simp add: handler_translate_def NLLBTranslator_translate_def strip_empty_iff
      or_else_def)

theorem translate_blank_text_witness:
  "list_all isspace [CHR 0x20, CHR 0x09] \<and> loaded started_world
   \<and> handler_translate working_capabilities started_world [CHR 0x20, CHR 0x09] ''fr'' None =
       (Inr [(''translated_text'', ''''), (''source_language'', ''en'')], started_world)
   \<and> handler_translate working_capabilities started_world [CHR 0x20, CHR 0x09] ''fr''
         (Some ''de'') =
       (Inr [(''translated_text'', ''''), (''source_language'', ''de'')], started_world)
   \<and> NLLBTranslator_translate working_capabilities started_world [CHR 0x20, CHR 0x09] ''fr''
         None = ('''', started_world)"
  using translate_blank_text [of "[CHR 0x20, CHR 0x09]" started_world working_capabilities
      "''fr''" None]
    translate_blank_text [of "[CHR 0x20, CHR 0x09]" started_world working_capabilities
      "''fr''" "Some ''de''"]
  by (simp add: isspace_def started_world_def)

text \<open>
  C5. A call of translate whose target short code is not in the table uses the English
  locale tag as target and still succeeds; the target is resolved by table lookup alone.
  The target locale tag is a function of the table and the target code only; after source
  resolution the generator is called once, with target \<open>eng_Latn\<close>; and whenever that call
  returns a translation, so does translate, with the requested target code reported back.
  Stated for a text that is not blank (a blank text returns before the target is looked
  at) and, for the batch surface, a loaded model.
\<close>

theorem translate_unsupported_target:
  assumes "dict_get handler_LANGUAGE_CODE_MAP target_language = None"
    and "\<not> list_all isspace text" and "loaded w"
  shows "handler_target_language_code target_language = Inr ''eng_Latn''
    \<and> NLLBTranslator_target_language_code target_language = Inr ''eng_Latn''
    \<and> (\<exists>code lang w1.
          handler_source_language_code caps w text source_language = (Inr (code, lang), w1)
          \<and> snd (handler_translate caps w text target_language source_language) =
              w1\<lparr>src_lang := Some code,
                 trace := trace w1 @ [Generate code ''eng_Latn'' text]\<rparr>
          \<and> (\<forall>translation. generate caps code ''eng_Latn'' text = Inr translation \<longrightarrow>
                fst (handler_translate caps w text target_language source_language) =
                  Inr [(''translated_text'', translation), (''source_language'', lang),
                       (''target_language'', target_language)]))
    \<and> (\<exists>code w1.
          NLLBTranslator_source_language_code caps w text source_language = (Inr code, w1)
          \<and> snd (NLLBTranslator_translate caps w text target_language source_language) =
              w1\<lparr>src_lang := Some code,
                 trace := trace w1 @ [Generate code ''eng_Latn'' text]\<rparr>
          \<and> (\<forall>translation. generate caps code ''eng_Latn'' text = Inr translation \<longrightarrow>
                fst (NLLBTranslator_translate caps w text target_language source_language) =
                  translation))"
proof -
  have tgt: "handler_target_language_code target_language = Inr ''eng_Latn''"
    using assms(1) by (simp add: handler_target_language_code_eq)
  have blank: "strip text \<noteq> []"
    using assms(2) by (simp add: strip_empty_iff)
  obtain code lang w1 where
    src: "handler_source_language_code caps w text source_language = (Inr (code, lang), w1)"
    using handler_source_language_code_returns by blast
  have h: "snd (handler_translate caps w text target_language source_language) =
              w1\<lparr>src_lang := Some code,
                 trace := trace w1 @ [Generate code ''eng_Latn'' text]\<rparr>
          \<and> (\<forall>translation. generate caps code ''eng_Latn'' text = Inr translation \<longrightarrow>
                fst (handler_translate caps w text target_language source_language) =
                  Inr [(''translated_text'', translation), (''source_language'', lang),
                       (''target_language'', target_language)])"
    using assms(3) blank
    by (simp add: handler_translate_def tgt src tokenize_generate_decode_def Let_def
        split: sum.splits)
  obtain ncode nw1 where
    nsrc: "NLLBTranslator_source_language_code caps w text source_language = (Inr ncode, nw1)"
    using NLLBTranslator_source_language_code_returns by blast
  have n: "snd (NLLBTranslator_translate caps w text target_language source_language) =
              nw1\<lparr>src_lang := Some ncode,
                 trace := trace nw1 @ [Generate ncode ''eng_Latn'' text]\<rparr>
          \<and> (\<forall>translation. generate caps ncode ''eng_Latn'' text = Inr translation \<longrightarrow>
                fst (NLLBTranslator_translate caps w text target_language source_language) =
                  translation)"
    using blank
    by (simp add: NLLBTranslator_translate_def NLLBTranslator_target_language_code_eq tgt nsrc
        tokenize_generate_decode_def Let_def split: sum.splits)
  show ?thesis
    using tgt src h nsrc n by (simp add: NLLBTranslator_target_language_code_eq)
qed

theorem translate_unsupported_target_witness:
  "dict_get handler_LANGUAGE_CODE_MAP ''xx'' = None \<and> \<not> list_all isspace ''Hello''
   \<and> loaded started_world
   \<and> handler_translate working_capabilities started_world ''Hello'' ''xx'' None =
       (Inr [(''translated_text'', ''eng_Latn[Hello]''), (''source_language'', ''en''),
             (''target_language'', ''xx'')],
        \<lparr>loaded = True, src_lang = Some ''eng_Latn'',
         trace = [LoadModel, Detect ''Hello'', Generate ''eng_Latn'' ''eng_Latn'' ''Hello'']\<rparr>)"
proof -
  have l: "loaded started_world"
    by (simp add: started_world_def)
  have src: "handler_source_language_code working_capabilities started_world ''Hello'' None =
      (Inr (''eng_Latn'', ''en''),
       \<lparr>loaded = True, src_lang = None, trace = [LoadModel, Detect ''Hello'']\<rparr>)"
    by (simp add: handler_source_language_code_def handler_detect_language_eq handler_en
        working_capabilities_def started_world_def)
  have gen: "generate working_capabilities ''eng_Latn'' ''eng_Latn'' ''Hello'' =
      Inr ''eng_Latn[Hello]''"
    by (simp add: working_capabilities_def)
  from translate_unsupported_target [OF handler_xx Hello_not_blank l,
      of working_capabilities None]
  have "snd (handler_translate working_capabilities started_world ''Hello'' ''xx'' None) =
      \<lparr>loaded = True, src_lang = Some ''eng_Latn'',
       trace = [LoadModel, Detect ''Hello'', Generate ''eng_Latn'' ''eng_Latn'' ''Hello'']\<rparr>"
    and "fst (handler_translate working_capabilities started_world ''Hello'' ''xx'' None) =
      Inr [(''translated_text'', ''eng_Latn[Hello]''), (''source_language'', ''en''),
           (''target_language'', ''xx'')]"
    using gen by (auto simp: src)
  then have r: "handler_translate working_capabilities started_world ''Hello'' ''xx'' None =
       (Inr [(''translated_text'', ''eng_Latn[Hello]''), (''source_language'', ''en''),
             (''target_language'', ''xx'')],
        \<lparr>loaded = True, src_lang = Some ''eng_Latn'',
         trace = [LoadModel, Detect ''Hello'', Generate ''eng_Latn'' ''eng_Latn'' ''Hello'']\<rparr>)"
    by (simp add: prod_eq_iff)
  show ?thesis
    by (intro conjI) (rule handler_xx Hello_not_blank l r)+
qed

text \<open>
  C6. A call of translate with an explicit source short code that is not in the table
  falls back to automatic detection, and to English when detection fails or answers an
  unsupported code; source resolution never produces an error. On both surfaces the
  detector is called once on the text and resolution returns the locale tag of the
  detected code, or \<open>eng_Latn\<close>; the batch surface reports the detected short code, or
  \<open>en\<close>. For a text that is not blank, translate then returns the translation whenever
  the generator does (on the batch surface with a loaded model).
\<close>

theorem unsupported_source_falls_back_to_detection:
  assumes "dict_get handler_LANGUAGE_CODE_MAP s = None"
  shows "\<exists>code lang.
      (code, lang) =
        (case detect caps text of
           Inl message \<Rightarrow> (''eng_Latn'', ''en'')
         | Inr lang_code \<Rightarrow>
             (case dict_get handler_LANGUAGE_CODE_MAP lang_code of
                None \<Rightarrow> (''eng_Latn'', ''en'')
              | Some nllb_code \<Rightarrow> (nllb_code, lang_code)))
      \<and> handler_source_language_code caps w text (Some s) =
          (Inr (code, lang), w\<lparr>trace := trace w @ [Detect text]\<rparr>)
      \<and> NLLBTranslator_source_language_code caps w text (Some s) =
          (Inr code, w\<lparr>trace := trace w @ [Detect text]\<rparr>)
      \<and> (\<not> list_all isspace text \<longrightarrow>
           (\<forall>target_language_code translation.
              handler_target_language_code target_language = Inr target_language_code
              \<and> generate caps code target_language_code text = Inr translation \<longrightarrow>
              (loaded w \<longrightarrow>
                 fst (handler_translate caps w text target_language (Some s)) =
                   Inr [(''translated_text'', translation), (''source_language'', lang),
                        (''target_language'', target_language)])
              \<and> fst (NLLBTranslator_translate caps w text target_language (Some s)) =
                  translation))"
proof -
  define p where "p =
        (case detect caps text of
           Inl message \<Rightarrow> (''eng_Latn'', ''en'')
         | Inr lang_code \<Rightarrow>
             (case dict_get handler_LANGUAGE_CODE_MAP lang_code of
                None \<Rightarrow> (''eng_Latn'', ''en'')
              | Some nllb_code \<Rightarrow> (nllb_code, lang_code)))"
  obtain code lang where cl: "p = (code, lang)"
    by (cases p)
  have h: "handler_source_language_code caps w text (Some s) =
          (Inr (code, lang), w\<lparr>trace := trace w @ [Detect text]\<rparr>)"
    using assms cl
    by (simp add: handler_source_language_code_def handler_detect_language_eq p_def)
  have "fst p = (case detect caps text of
           Inl message \<Rightarrow> ''eng_Latn''
         | Inr lang_code \<Rightarrow>
             (case dict_get handler_LANGUAGE_CODE_MAP lang_code of
                None \<Rightarrow> ''eng_Latn''
              | Some nllb_code \<Rightarrow> nllb_code))"
    unfolding p_def by (simp split: sum.splits option.splits)
  then have n: "NLLBTranslator_source_language_code caps w text (Some s) =
          (Inr code, w\<lparr>trace := trace w @ [Detect text]\<rparr>)"
    using assms cl
    by (simp add: NLLBTranslator_source_language_code_def NLLBTranslator_detect_language_eq
        tables_equal)
  have t: "\<not> list_all isspace text \<longrightarrow>
           (\<forall>target_language_code translation.
              handler_target_language_code target_language = Inr target_language_code
              \<and> generate caps code target_language_code text = Inr translation \<longrightarrow>
              (loaded w \<longrightarrow>
                 fst (handler_translate caps w text target_language (Some s)) =
                   Inr [(''translated_text'', translation), (''source_language'', lang),
                        (''target_language'', target_language)])
              \<and> fst (NLLBTranslator_translate caps w text target_language (Some s)) =
                  translation)"
    by (simp add: handler_translate_def NLLBTranslator_translate_def strip_empty_iff h n
        NLLBTranslator_target_language_code_eq tokenize_generate_decode_def Let_def)
  show ?thesis
    using cl h n t unfolding p_def by (intro exI [of _ code] exI [of _ lang]) simp
qed


theorem unsupported_source_falls_back_to_detection_witness:
  "dict_get handler_LANGUAGE_CODE_MAP ''xx'' = None
   \<and> handler_source_language_code working_capabilities started_world ''Hello'' (Some ''xx'') =
       (Inr (''eng_Latn'', ''en''),
        \<lparr>loaded = True, src_lang = None, trace = [LoadModel, Detect ''Hello'']\<rparr>)
   \<and> NLLBTranslator_source_language_code working_capabilities started_world ''Hello''
         (Some ''xx'') =
       (Inr ''eng_Latn'',
        \<lparr>loaded = True, src_lang = None, trace = [LoadModel, Detect ''Hello'']\<rparr>)
   \<and> fst (handler_translate working_capabilities started_world ''Hello'' ''fr'' (Some ''xx'')) =
       Inr [(''translated_text'', ''fra_Latn[Hello]''), (''source_language'', ''en''),
            (''target_language'', ''fr'')]"
proof -
  have d: "(case detect working_capabilities ''Hello'' of
           Inl message \<Rightarrow> (''eng_Latn'', ''en'')
         | Inr lang_code \<Rightarrow>
             (case dict_get handler_LANGUAGE_CODE_MAP lang_code of
                None \<Rightarrow> (''eng_Latn'', ''en'')
              | Some nllb_code \<Rightarrow> (nllb_code, lang_code))) = (''eng_Latn'', ''en'')"
    by (simp add: working_capabilities_def handler_en)
  have w: "started_world\<lparr>trace := trace started_world @ [Detect ''Hello'']\<rparr> =
      \<lparr>loaded = True, src_lang = None, trace = [LoadModel, Detect ''Hello'']\<rparr>"
    by (simp add: started_world_def)
  have l: "loaded started_world"
    by (simp add: started_world_def)
  have tgt: "handler_target_language_code ''fr'' = Inr ''fra_Latn''"
    by (simp add: handler_target_language_code_eq handler_fr)
  have gen: "generate working_capabilities ''eng_Latn'' ''fra_Latn'' ''Hello'' =
      Inr ''fra_Latn[Hello]''"
    by (simp add: working_capabilities_def)
  from unsupported_source_falls_back_to_detection [OF handler_xx,
      of working_capabilities "''Hello''" started_world "''fr''"]
  obtain code lang where
    c: "(code, lang) = (''eng_Latn'', ''en'')"
    and h: "handler_source_language_code working_capabilities started_world ''Hello''
         (Some ''xx'') =
       (Inr (code, lang), started_world\<lparr>trace := trace started_world @ [Detect ''Hello'']\<rparr>)"
    and n: "NLLBTranslator_source_language_code working_capabilities started_world ''Hello''
         (Some ''xx'') =
       (Inr code, started_world\<lparr>trace := trace started_world @ [Detect ''Hello'']\<rparr>)"
    and t: "\<not> list_all isspace ''Hello'' \<longrightarrow>
           (\<forall>target_language_code translation.
              handler_target_language_code ''fr'' = Inr target_language_code
              \<and> generate working_capabilities code target_language_code ''Hello'' =
                  Inr translation \<longrightarrow>
              (loaded started_world \<longrightarrow>
                 fst (handler_translate working_capabilities started_world ''Hello'' ''fr''
                        (Some ''xx'')) =
                   Inr [(''translated_text'', translation), (''source_language'', lang),
                        (''target_language'', ''fr'')])
              \<and> fst (NLLBTranslator_translate working_capabilities started_world ''Hello''
                        ''fr'' (Some ''xx'')) = translation)"
    unfolding d by blast
  from c have code: "code = ''eng_Latn''" and lang: "lang = ''en''"
    by simp_all
  have r: "fst (handler_translate working_capabilities started_world ''Hello'' ''fr''
                        (Some ''xx'')) =
       Inr [(''translated_text'', ''fra_Latn[Hello]''), (''source_language'', ''en''),
            (''target_language'', ''fr'')]"
    using t Hello_not_blank tgt gen l unfolding code lang by blast
  show ?thesis
    using h n r unfolding code lang w by (intro conjI) (rule handler_xx | assumption)+
qed

text \<open>
  C7 as stated: an event whose input lacks \<open>text\<close> is answered with exactly
  \<open>{"error": "Missing required field: text"}\<close>, and an event with \<open>text\<close> present but no
  \<open>target_language\<close> with exactly \<open>{"error": "Missing required field: target_language"}\<close>.
  The second half fails when the text that is present is the empty string: \<open>not text\<close>
  holds for it, and the handler reports \<open>text\<close> as the missing field.
\<close>

theorem handler_text_empty_target_missing_counterexample:
  "[''text'' \<mapsto> ''''] ''text'' = Some ''''
   \<and> [''text'' \<mapsto> ''''] ''target_language'' = None
   \<and> handler working_capabilities started_world [''input'' \<mapsto> [''text'' \<mapsto> '''']] =
       ([(''error'', ''Missing required field: text'')], started_world)
   \<and> fst (handler working_capabilities started_world [''input'' \<mapsto> [''text'' \<mapsto> '''']]) \<noteq>
       [(''error'', ''Missing required field: target_language'')]"
  by (simp add: handler_def)

text \<open>
  C7, amended: an event whose input lacks \<open>text\<close> (or has no \<open>input\<close> at all) is answered
  with exactly \<open>{"error": "Missing required field: text"}\<close>, and an event whose \<open>text\<close> is
  present and not empty but which lacks \<open>target_language\<close> with exactly
  \<open>{"error": "Missing required field: target_language"}\<close>. In both cases the state is
  returned as it was: no capability is called, so no translation is attempted.
\<close>

theorem handler_missing_required_field:
  assumes "input_data = (case event ''input'' of None \<Rightarrow> Map.empty | Some d \<Rightarrow> d)"
  shows "(input_data ''text'' = None \<longrightarrow>
            handler caps w event = ([(''error'', ''Missing required field: text'')], w))
    \<and> (\<forall>t. input_data ''text'' = Some t \<and> t \<noteq> [] \<and> input_data ''target_language'' = None \<longrightarrow>
            handler caps w event =
              ([(''error'', ''Missing required field: target_language'')], w))"
  using assms by (simp add: handler_def Let_def)

theorem handler_missing_required_field_witness:
  "handler working_capabilities started_world [''input'' \<mapsto> [''target_language'' \<mapsto> ''fr'']] =
     ([(''error'', ''Missing required field: text'')], started_world)
   \<and> handler working_capabilities started_world Map.empty =
     ([(''error'', ''Missing required field: text'')], started_world)
   \<and> handler working_capabilities started_world [''input'' \<mapsto> [''text'' \<mapsto> ''Hello'']] =
     ([(''error'', ''Missing required field: target_language'')], started_world)"
  using handler_missing_required_field [of "[''target_language'' \<mapsto> ''fr'']"
      "[''input'' \<mapsto> [''target_language'' \<mapsto> ''fr'']]" working_capabilities started_world]
    handler_missing_required_field [of Map.empty Map.empty working_capabilities started_world]
    handler_missing_required_field [of "[''text'' \<mapsto> ''Hello'']"
      "[''input'' \<mapsto> [''text'' \<mapsto> ''Hello'']]" working_capabilities started_world]
  by simp

text \<open>
  C8. Each language code table is a bijection: no short code occurs twice as a key and
  no locale tag occurs twice as a value, so lookup maps the set of keys one-to-one onto
  the set of values. The tables are constants: no function of the two surfaces assigns to
  \<open>LANGUAGE_CODE_MAP\<close> or updates an entry, and accordingly no operation of the model takes
  a table as argument or returns one.
\<close>

theorem language_code_tables_bijective:
  "distinct (map fst handler_LANGUAGE_CODE_MAP)
   \<and> distinct (map snd handler_LANGUAGE_CODE_MAP)
   \<and> distinct (map fst NLLBTranslator_LANGUAGE_CODE_MAP)
   \<and> distinct (map snd NLLBTranslator_LANGUAGE_CODE_MAP)
   \<and> bij_betw (\<lambda>k. the (dict_get handler_LANGUAGE_CODE_MAP k))
       (set (map fst handler_LANGUAGE_CODE_MAP)) (set (map snd handler_LANGUAGE_CODE_MAP))
   \<and> bij_betw (\<lambda>k. the (dict_get NLLBTranslator_LANGUAGE_CODE_MAP k))
       (set (map fst NLLBTranslator_LANGUAGE_CODE_MAP))
       (set (map snd NLLBTranslator_LANGUAGE_CODE_MAP))"
proof -
  have look: "the (dict_get handler_LANGUAGE_CODE_MAP k) = v"
    if "(k, v) \<in> set handler_LANGUAGE_CODE_MAP" for k v
    using that by (simp add: handler_dict_get handler_keys_distinct)
  have inj: "inj_on snd (set handler_LANGUAGE_CODE_MAP)"
    using handler_values_distinct by (simp add: distinct_map)
  have "inj_on (\<lambda>k. the (dict_get handler_LANGUAGE_CODE_MAP k))
      (set (map fst handler_LANGUAGE_CODE_MAP))"
  proof (rule inj_onI)
    fix k1 k2
    assume "k1 \<in> set (map fst handler_LANGUAGE_CODE_MAP)"
      and "k2 \<in> set (map fst handler_LANGUAGE_CODE_MAP)"
      and eq: "the (dict_get handler_LANGUAGE_CODE_MAP k1) =
        the (dict_get handler_LANGUAGE_CODE_MAP k2)"
    then obtain v1 v2 where m: "(k1, v1) \<in> set handler_LANGUAGE_CODE_MAP"
      "(k2, v2) \<in> set handler_LANGUAGE_CODE_MAP"
      by auto
    with eq have "snd (k1, v1) = snd (k2, v2)"
      by (simp add: look)
    from inj_onD [OF inj this m] show "k1 = k2"
      by simp
  qed
  moreover have "(\<lambda>k. the (dict_get handler_LANGUAGE_CODE_MAP k)) `
      set (map fst handler_LANGUAGE_CODE_MAP) = set (map snd handler_LANGUAGE_CODE_MAP)"
  proof -
    have "the (dict_get handler_LANGUAGE_CODE_MAP (fst kv)) = snd kv"
      if "kv \<in> set handler_LANGUAGE_CODE_MAP" for kv
      using that look [of "fst kv" "snd kv"] by simp
    then show ?thesis
      by (simp add: image_image)
  qed
  ultimately have "bij_betw (\<lambda>k. the (dict_get handler_LANGUAGE_CODE_MAP k))
       (set (map fst handler_LANGUAGE_CODE_MAP)) (set (map snd handler_LANGUAGE_CODE_MAP))"
    by (simp add: bij_betw_def)
  then show ?thesis
    using handler_keys_distinct handler_values_distinct unfolding tables_equal by simp
qed

text \<open>The only dict with exactly the two entries \<open>translated_text\<close> (empty) and
  \<open>source_language\<close> that \<open>translate\<close> of \<open>handler.py\<close> returns is the one of line 127, for a
  text of white space only; the other dicts it returns have three entries.\<close>

lemma handler_translate_two_entries:
  assumes "fst (handler_translate caps w t target_language source_language) =
      Inr [(''translated_text'', ''''), (''source_language'', src)]"
  shows "list_all isspace t"
proof (rule ccontr)
  assume "\<not> list_all isspace t"
  then have "strip t \<noteq> []"
    by (simp add: strip_empty_iff)
  then show False
    using assms
    by (auto simp: handler_translate_def load_model_def Let_def translation_error_def
        tokenize_generate_decode_def split: if_splits sum.splits prod.splits option.splits)
qed

text \<open>
  C9. An event whose input has the empty string as \<open>text\<close> is answered by the handler
  with \<open>{"error": "Missing required field: text"}\<close>, whatever its \<open>target_language\<close>, and
  the state is unchanged. The success path for empty text, which returns the dict of
  an empty \<open>translated_text\<close> and \<open>source_language\<close> only, is reached through the handler
  only by a text that is not empty and consists of white space.
\<close>

theorem handler_empty_text:
  assumes "input_data = (case event ''input'' of None \<Rightarrow> Map.empty | Some d \<Rightarrow> d)"
  shows "(input_data ''text'' = Some '''' \<longrightarrow>
            handler caps w event = ([(''error'', ''Missing required field: text'')], w))
    \<and> (\<forall>src. fst (handler caps w event) =
                [(''translated_text'', ''''), (''source_language'', src)] \<longrightarrow>
              (\<exists>t. input_data ''text'' = Some t \<and> t \<noteq> [] \<and> list_all isspace t))"
proof (intro conjI allI impI)
  assume "input_data ''text'' = Some ''''"
  then show "handler caps w event = ([(''error'', ''Missing required field: text'')], w)"
    using assms by (simp add: handler_def Let_def)
next
  fix src
  assume r: "fst (handler caps w event) =
      [(''translated_text'', ''''), (''source_language'', src)]"
  show "\<exists>t. input_data ''text'' = Some t \<and> t \<noteq> [] \<and> list_all isspace t"
  proof (cases "input_data ''text''")
    case None
    then show ?thesis
      using r assms by (simp add: handler_def Let_def)
  next
    case (Some t)
    note present = this
    show ?thesis
    proof (cases "t = []")
      case True
      then show ?thesis
        using r assms present by (simp add: handler_def Let_def)
    next
      case False
      note nonempty = this
      show ?thesis
      proof (cases "input_data ''target_language''")
        case None
        then show ?thesis
          using r assms present nonempty by (simp add: handler_def Let_def)
      next
        case (Some tgt)
        note target = this
        show ?thesis
        proof (cases "tgt = []")
          case True
          then show ?thesis
            using r assms present nonempty target by (simp add: handler_def Let_def)
        next
          case False
          then have "fst (handler_translate caps w t tgt (input_data ''source_language'')) =
              Inr [(''translated_text'', ''''), (''source_language'', src)]"
            using r assms present nonempty target
            by (simp add: handler_def Let_def split: prod.splits sum.splits)
          then have "list_all isspace t"
            by (rule handler_translate_two_entries)
          then show ?thesis
            using present nonempty by simp
        qed
      qed
    qed
  qed
qed

theorem handler_empty_text_witness:
  "handler working_capabilities started_world
       [''input'' \<mapsto> [''text'' \<mapsto> [], ''target_language'' \<mapsto> ''fr'']] =
     ([(''error'', ''Missing required field: text'')], started_world)
   \<and> handler working_capabilities started_world
       [''input'' \<mapsto> [''text'' \<mapsto> [CHR 0x20], ''target_language'' \<mapsto> ''fr'']] =
     ([(''translated_text'', []), (''source_language'', ''en'')], started_world)
   \<and> (\<exists>t. [''text'' \<mapsto> [CHR 0x20], ''target_language'' \<mapsto> ''fr''] ''text'' = Some t
          \<and> t \<noteq> [] \<and> list_all isspace t)"
proof -
  have a1: "[''text'' \<mapsto> [], ''target_language'' \<mapsto> ''fr''] =
      (case [''input'' \<mapsto> [''text'' \<mapsto> [], ''target_language'' \<mapsto> ''fr'']] ''input'' of
         None \<Rightarrow> Map.empty | Some d \<Rightarrow> d)"
    by simp
  have p1: "[''text'' \<mapsto> [], ''target_language'' \<mapsto> ''fr''] ''text'' = Some []"
    by simp
  have r1: "handler working_capabilities started_world
       [''input'' \<mapsto> [''text'' \<mapsto> [], ''target_language'' \<mapsto> ''fr'']] =
     ([(''error'', ''Missing required field: text'')], started_world)"
    using handler_empty_text [of "[''text'' \<mapsto> [], ''target_language'' \<mapsto> ''fr'']"
        "[''input'' \<mapsto> [''text'' \<mapsto> [], ''target_language'' \<mapsto> ''fr'']]"
        working_capabilities started_world, OF a1] p1
    by blast
  have a2: "[''text'' \<mapsto> [CHR 0x20], ''target_language'' \<mapsto> ''fr''] =
      (case [''input'' \<mapsto> [''text'' \<mapsto> [CHR 0x20], ''target_language'' \<mapsto> ''fr'']] ''input'' of
         None \<Rightarrow> Map.empty | Some d \<Rightarrow> d)"
    by simp
  have r2: "handler working_capabilities started_world
       [''input'' \<mapsto> [''text'' \<mapsto> [CHR 0x20], ''target_language'' \<mapsto> ''fr'']] =
     ([(''translated_text'', []), (''source_language'', ''en'')], started_world)"
    by (simp add: handler_def handler_translate_def strip_def isspace_def started_world_def
        or_else_def)
  then have "fst (handler working_capabilities started_world
       [''input'' \<mapsto> [''text'' \<mapsto> [CHR 0x20], ''target_language'' \<mapsto> ''fr'']]) =
     [(''translated_text'', []), (''source_language'', ''en'')]"
    by simp
  then have r3: "\<exists>t. [''text'' \<mapsto> [CHR 0x20], ''target_language'' \<mapsto> ''fr''] ''text'' = Some t
          \<and> t \<noteq> [] \<and> list_all isspace t"
    using handler_empty_text [of "[''text'' \<mapsto> [CHR 0x20], ''target_language'' \<mapsto> ''fr'']"
        "[''input'' \<mapsto> [''text'' \<mapsto> [CHR 0x20], ''target_language'' \<mapsto> ''fr'']]"
        working_capabilities started_world, OF a2]
    by blast
  show ?thesis
    using r1 r2 r3 by (intro conjI)
qed

text \<open>
  C10. The language code mapping of the batch surface and that of the translator class
  of the REST surface are equal: the same entries, hence the same answer of \<open>get\<close> for
  every key. Target resolution is therefore the same function on both surfaces, and source
  resolution yields the same locale tag on both, for every capability, state, text and
  optional source code.
\<close>

theorem language_code_maps_agree:
  "NLLBTranslator_LANGUAGE_CODE_MAP = handler_LANGUAGE_CODE_MAP
   \<and> dict_get NLLBTranslator_LANGUAGE_CODE_MAP k = dict_get handler_LANGUAGE_CODE_MAP k
   \<and> NLLBTranslator_target_language_code target_language =
       handler_target_language_code target_language
   \<and> fst (NLLBTranslator_source_language_code caps w text source_language) =
       map_sum id fst (fst (handler_source_language_code caps w text source_language))"
proof -
  have "fst (NLLBTranslator_source_language_code caps w text source_language) =
       map_sum id fst (fst (handler_source_language_code caps w text source_language))"
    unfolding NLLBTranslator_source_language_code_def handler_source_language_code_def
      NLLBTranslator_detect_language_eq handler_detect_language_eq tables_equal
    by (simp split: option.splits sum.splits)
  then show ?thesis
    by (simp add: tables_equal NLLBTranslator_target_language_code_eq)
qed

end
